theory Spec2Isabelle
  imports Main "HOL-Library.Word"
begin

unbundle bit_operations_syntax

section \<open>The output-text sink\<close>

text \<open>
  The generators of \<^verbatim>\<open>javanano_enum.cc\<close> and \<^verbatim>\<open>javanano_enum_field.cc\<close> write
  Java text through \<^verbatim>\<open>io::Printer\<close>. The printer's state is the text written so far,
  the current indentation, whether the next write starts a line, and the names of the
  placeholders that had no substitution.
\<close>

record Printer =
  buffer :: string
  indent_str :: string
  at_start_of_line :: bool
  undefined_vars :: "string list"

definition new_Printer :: Printer where
  "new_Printer = \<lparr>buffer = [], indent_str = [], at_start_of_line = True, undefined_vars = []\<rparr>"

text \<open>
  Modelled from the spec: \<^verbatim>\<open>io::Printer\<close> (\<^verbatim>\<open>printer.cc\<close>) is not among the sources.
  The spec describes it as an output-text sink accepting named-placeholder template
  substitution with indent/outdent scoping. A placeholder is written \<^verbatim>\<open>$name$\<close>, two
  delimiters in a row stand for one literal delimiter, the indentation (two spaces per
  level) is inserted before the first text written on a line, and a newline of the
  template ends the line.
\<close>

text \<open>
  Modelled from the spec: \<^verbatim>\<open>Printer::WriteRaw\<close>. Nothing is written
  for an empty text; at the start of a line the indentation comes first.
\<close>

definition WriteRaw :: "string \<Rightarrow> Printer \<Rightarrow> Printer" where
  "WriteRaw s p =
     (if s = [] then p
      else if at_start_of_line p
        then p\<lparr>buffer := buffer p @ indent_str p @ s, at_start_of_line := False\<rparr>
        else p\<lparr>buffer := buffer p @ s\<rparr>)"

text \<open>
  Modelled from the spec: \<^verbatim>\<open>Printer::Indent\<close>, two more spaces of
  indentation.
\<close>

definition Indent :: "Printer \<Rightarrow> Printer" where
  "Indent p = p\<lparr>indent_str := indent_str p @ ''  ''\<rparr>"

text \<open>
  Modelled from the spec: \<^verbatim>\<open>Printer::Outdent\<close>, two spaces less.
\<close>

definition Outdent :: "Printer \<Rightarrow> Printer" where
  "Outdent p = p\<lparr>indent_str := take (length (indent_str p) - 2) (indent_str p)\<rparr>"

text \<open>
  Modelled from the spec: the substitution of one placeholder by
  \<^verbatim>\<open>Printer::Print\<close>; an empty name is the literal delimiter, an
  unknown name is recorded and writes nothing.
\<close>

definition substitute :: "(string \<rightharpoonup> string) \<Rightarrow> string \<Rightarrow> Printer \<Rightarrow> Printer" where
  "substitute vars varname p =
     (if varname = [] then WriteRaw ''$'' p
      else case vars varname of
             None \<Rightarrow> p\<lparr>undefined_vars := undefined_vars p @ [varname]\<rparr>
           | Some v \<Rightarrow> WriteRaw v p)"

text \<open>
  Modelled from the spec: the scan of the template by
  \<^verbatim>\<open>Printer::Print\<close>, with the text not yet written as
  \<^verbatim>\<open>pending\<close>.
\<close>

function Print_scan :: "(string \<rightharpoonup> string) \<Rightarrow> string \<Rightarrow> string \<Rightarrow> Printer \<Rightarrow> Printer" where
  "Print_scan vars pending [] p = WriteRaw pending p"
| "Print_scan vars pending (c # cs) p =
     (if c = CHR 0x0A
        then Print_scan vars [] cs ((WriteRaw (pending @ [c]) p)\<lparr>at_start_of_line := True\<rparr>)
      else if c = CHR ''$''
        then Print_scan vars [] (drop 1 (dropWhile (\<lambda>x. x \<noteq> CHR ''$'') cs))
               (substitute vars (takeWhile (\<lambda>x. x \<noteq> CHR ''$'') cs) (WriteRaw pending p))
      else Print_scan vars (pending @ [c]) cs p)"
  by pat_completeness auto
termination
  by (relation "measure (\<lambda>(vars, pending, cs, p). length cs)")
     (auto simp: less_Suc_eq_le intro: le_trans [OF diff_le_self length_dropWhile_le])

text \<open>Modelled from the spec: \<^verbatim>\<open>Printer::Print\<close>.\<close>

definition Print :: "(string \<rightharpoonup> string) \<Rightarrow> string \<Rightarrow> Printer \<Rightarrow> Printer" where
  "Print vars text p = Print_scan vars [] text p"

text \<open>
  Modelled from the spec: a decimal digit, for \<^verbatim>\<open>SimpleItoa\<close>.
\<close>

definition digit_char :: "nat \<Rightarrow> char" where
  "digit_char d = ''0123456789'' ! d"

text \<open>
  Modelled from the spec: the decimal digits of a natural number, for
  \<^verbatim>\<open>SimpleItoa\<close>.
\<close>

function decimal :: "nat \<Rightarrow> string" where
  "decimal n = (if n < 10 then [digit_char n] else decimal (n div 10) @ [digit_char (n mod 10)])"
  by pat_completeness auto
termination
  by (relation "measure id") auto

declare decimal.simps [simp del]

text \<open>
  Modelled from the spec: \<^verbatim>\<open>SimpleItoa\<close> (\<^verbatim>\<open>strutil.cc\<close>) is not among the sources; the
  spec describes it as producing numeric literal text. It is the decimal numeral of an
  integer, with a leading minus sign for a negative one.
\<close>

definition SimpleItoa :: "int \<Rightarrow> string" where
  "SimpleItoa i = (if i < 0 then CHR ''-'' # decimal (nat (- i)) else decimal (nat i))"

section \<open>Enumerations: canonical values and aliases\<close>

text \<open>
  An \<^verbatim>\<open>EnumValueDescriptor\<close> has a name and a number; the values of an enumeration are
  held in declaration order, and a pointer to a value is its index in that list (the
  null pointer is \<open>None\<close>). Several values may share a number. The generator reads a
  value only at an index below \<^verbatim>\<open>value_count\<close>.
\<close>

record EnumValueDescriptor =
  ev_name :: string
  ev_number :: int

record EnumDescriptor =
  enum_name :: string
  enum_values :: "EnumValueDescriptor list"
  enum_nested :: bool
  enum_file_name :: string

definition value_count :: "EnumDescriptor \<Rightarrow> nat" where
  "value_count d = length (enum_values d)"

definition number_at :: "EnumDescriptor \<Rightarrow> nat \<Rightarrow> int" where
  "number_at d i = ev_number (enum_values d ! i)"

definition name_at :: "EnumDescriptor \<Rightarrow> nat \<Rightarrow> string" where
  "name_at d i = ev_name (enum_values d ! i)"

text \<open>
  Modelled from the spec: \<^verbatim>\<open>EnumDescriptor::FindValueByNumber\<close> (\<^verbatim>\<open>descriptor.cc\<close>) is
  not among the sources. The spec lists it as value lookup by number and fixes the
  representative of a number as the value with the smallest declaration-order index
  among the values sharing that number; a number no value has gives the null pointer.
\<close>

definition FindValueByNumber :: "EnumDescriptor \<Rightarrow> int \<Rightarrow> nat option" where
  "FindValueByNumber d n = List.find (\<lambda>i. number_at d i = n) [0..<value_count d]"

record Alias =
  alias_value :: nat
  canonical_value :: "nat option"

text \<open>
  \<^verbatim>\<open>Params\<close> (\<^verbatim>\<open>javanano_params.h\<close>) is not among the sources; the generator reads two
  of its settings, taken here as fields. \<^verbatim>\<open>RenameJavaKeywords\<close>
  (\<^verbatim>\<open>javanano_helpers.cc\<close>) is not among the sources either and is a parameter of the
  generator.
\<close>

record Params =
  java_enum_style :: bool
  java_multiple_files :: "string \<Rightarrow> bool"

record EnumGenerator =
  params :: Params
  descriptor :: EnumDescriptor
  canonical_values :: "nat list"
  aliases :: "Alias list"

text \<open>The body of the constructor's loop, for the value at index \<open>i\<close>.\<close>

definition EnumGenerator_step :: "EnumGenerator \<Rightarrow> nat \<Rightarrow> EnumGenerator" where
  "EnumGenerator_step g i =
     (let canonical = FindValueByNumber (descriptor g) (number_at (descriptor g) i)
      in if Some i = canonical
           then g\<lparr>canonical_values := canonical_values g @ [i]\<rparr>
           else g\<lparr>aliases := aliases g @ [\<lparr>alias_value = i, canonical_value = canonical\<rparr>]\<rparr>)"

definition EnumGenerator_new :: "EnumDescriptor \<Rightarrow> Params \<Rightarrow> EnumGenerator" where
  "EnumGenerator_new d ps =
     foldl EnumGenerator_step
       \<lparr>params = ps, descriptor = d, canonical_values = [], aliases = []\<rparr>
       [0..<value_count d]"

datatype gen_error = NullPointer

fun print_canonical_values ::
  "(string \<Rightarrow> string) \<Rightarrow> EnumDescriptor \<Rightarrow> nat list \<Rightarrow> Printer \<Rightarrow> Printer" where
  "print_canonical_values rename d [] p = p"
| "print_canonical_values rename d (i # is) p =
     print_canonical_values rename d is
       (Print [''name'' \<mapsto> rename (name_at d i),
               ''canonical_value'' \<mapsto> SimpleItoa (number_at d i)]
          ''public static final int $name$ = $canonical_value$;\<newline>'' p)"

text \<open>
  The alias loop dereferences \<^verbatim>\<open>aliases[i].canonical_value\<close>; a null pointer there
  is the error \<open>NullPointer\<close>.
\<close>

fun print_aliases ::
  "(string \<Rightarrow> string) \<Rightarrow> EnumDescriptor \<Rightarrow> Alias list \<Rightarrow> Printer \<Rightarrow> gen_error + Printer" where
  "print_aliases rename d [] p = Inr p"
| "print_aliases rename d (a # as) p =
     (case canonical_value a of
        None \<Rightarrow> Inl NullPointer
      | Some c \<Rightarrow>
          print_aliases rename d as
            (Print [''name'' \<mapsto> rename (name_at d (alias_value a)),
                    ''canonical_name'' \<mapsto> rename (name_at d c)]
               ''public static final int $name$ = $canonical_name$;\<newline>'' p))"

text \<open>The parts of \<^verbatim>\<open>Generate\<close> before and after the two passes over the values.\<close>

definition shell_class_start :: "(string \<Rightarrow> string) \<Rightarrow> EnumGenerator \<Rightarrow> Printer \<Rightarrow> Printer" where
  "shell_class_start rename g printer =
     (let d = descriptor g;
          p1 = Print [''classname'' \<mapsto> enum_name d] ''// enum $classname$\<newline>'' printer;
          use_shell_class = java_enum_style (params g)
      in if use_shell_class
         then
           let is_own_file =
                 (\<not> enum_nested d \<and> java_multiple_files (params g) (enum_file_name d))
           in Indent
                (Print [''modifiers'' \<mapsto> (if is_own_file then [] else ''static ''),
                        ''classname'' \<mapsto> rename (enum_name d)]
                   ''public $modifiers$final class $classname$ {\<newline>  private $classname$() {}\<newline>  \<newline>''
                   p1)
         else p1)"

definition shell_class_end :: "EnumGenerator \<Rightarrow> Printer \<Rightarrow> Printer" where
  "shell_class_end g p =
     (let use_shell_class = java_enum_style (params g);
          p5 = (if use_shell_class then Print Map.empty ''}\<newline>'' (Outdent p) else p)
      in Print Map.empty ''\<newline>'' p5)"

definition Generate :: "(string \<Rightarrow> string) \<Rightarrow> EnumGenerator \<Rightarrow> Printer \<Rightarrow> gen_error + Printer" where
  "Generate rename g printer =
     (let d = descriptor g;
          p2 = shell_class_start rename g printer;
          p3 = print_canonical_values rename d (canonical_values g) p2
      in case print_aliases rename d (aliases g) p3 of
           Inl e \<Rightarrow> Inl e
         | Inr p4 \<Rightarrow> Inr (shell_class_end g p4))"

text \<open>The example enumeration of the specification: A and B both have the number 5.\<close>

definition example_enum :: EnumDescriptor where
  "example_enum =
     \<lparr>enum_name = ''E'',
      enum_values = [\<lparr>ev_name = ''A'', ev_number = 5\<rparr>, \<lparr>ev_name = ''B'', ev_number = 5\<rparr>],
      enum_nested = False, enum_file_name = ''e.proto''\<rparr>"

definition plain_params :: Params where
  "plain_params = \<lparr>java_enum_style = False, java_multiple_files = (\<lambda>f. False)\<rparr>"

section \<open>Enum fields: the emitted text\<close>

text \<open>
  What \<^verbatim>\<open>javanano_enum_field.cc\<close> reads of a \<^verbatim>\<open>FieldDescriptor\<close>: the field's name
  and number, its \<^verbatim>\<open>packed\<close> option and the name of the containing message type.
\<close>

record FieldDescriptor =
  fd_name :: string
  fd_number :: int
  fd_packed :: bool
  fd_message_name :: string

text \<open>
  The naming helpers of \<^verbatim>\<open>javanano_helpers.cc\<close> are not among the sources; they are
  parameters of the generators.
\<close>

record Helpers =
  UnderscoresToCamelCase :: "FieldDescriptor \<Rightarrow> string"
  UnderscoresToCapitalizedCamelCase :: "FieldDescriptor \<Rightarrow> string"
  DefaultValue :: "Params \<Rightarrow> FieldDescriptor \<Rightarrow> string"

text \<open>
  Modelled from the spec: \<^verbatim>\<open>internal::WireFormat\<close> (\<^verbatim>\<open>wire_format.h\<close>) is not among the
  sources; the spec describes it as a wire-format collaborator computing tag values and tag
  byte-lengths from field number and declared wire type. A tag is the field number
  shifted left by three bits, with the wire type in the low bits: 0 (varint) for an enum
  field, 2 (length-delimited) for a packed one. A tag's size is the number of 7-bit
  groups of the shifted number. Both are unsigned 32-bit values.
\<close>

text \<open>
  Modelled from the spec: \<^verbatim>\<open>WireFormat::WireTypeForField\<close> for an
  enum field.
\<close>

definition WireTypeForField :: "FieldDescriptor \<Rightarrow> int" where
  "WireTypeForField fd = (if fd_packed fd then 2 else 0)"

text \<open>Modelled from the spec: \<^verbatim>\<open>WireFormat::MakeTag\<close>.\<close>

definition MakeTag :: "FieldDescriptor \<Rightarrow> int" where
  "MakeTag fd = (fd_number fd * 8 + WireTypeForField fd) mod 2 ^ 32"

text \<open>
  Modelled from the spec: \<^verbatim>\<open>CodedOutputStream::VarintSize32\<close>, the
  number of bytes of an unsigned 32-bit variable-length integer.
\<close>

definition VarintSize32 :: "int \<Rightarrow> int" where
  "VarintSize32 v =
     (if v < 2 ^ 7 then 1 else if v < 2 ^ 14 then 2 else if v < 2 ^ 21 then 3
      else if v < 2 ^ 28 then 4 else 5)"

text \<open>
  Modelled from the spec: \<^verbatim>\<open>WireFormat::TagSize\<close> for a field that is
  not a group.
\<close>

definition TagSize :: "int \<Rightarrow> int" where
  "TagSize field_number = VarintSize32 ((field_number * 8) mod 2 ^ 32)"

definition SetEnumVariables :: "Helpers \<Rightarrow> Params \<Rightarrow> FieldDescriptor \<Rightarrow> (string \<rightharpoonup> string)" where
  "SetEnumVariables h ps fd =
     [''name'' \<mapsto> UnderscoresToCamelCase h fd,
      ''capitalized_name'' \<mapsto> UnderscoresToCapitalizedCamelCase h fd,
      ''number'' \<mapsto> SimpleItoa (fd_number fd),
      ''type'' \<mapsto> ''int'',
      ''default'' \<mapsto> DefaultValue h ps fd,
      ''tag'' \<mapsto> SimpleItoa (MakeTag fd),
      ''tag_size'' \<mapsto> SimpleItoa (TagSize (fd_number fd)),
      ''message_name'' \<mapsto> fd_message_name fd]"

text \<open>
  A field generator holds the descriptor and the substitutions computed by its
  constructor.
\<close>

record FieldGenerator =
  field_descriptor :: FieldDescriptor
  variables :: "string \<rightharpoonup> string"

definition EnumFieldGenerator_new :: "Helpers \<Rightarrow> FieldDescriptor \<Rightarrow> Params \<Rightarrow> FieldGenerator" where
  "EnumFieldGenerator_new h fd ps =
     \<lparr>field_descriptor = fd, variables = SetEnumVariables h ps fd\<rparr>"

definition RepeatedEnumFieldGenerator_new :: "Helpers \<Rightarrow> FieldDescriptor \<Rightarrow> Params \<Rightarrow> FieldGenerator" where
  "RepeatedEnumFieldGenerator_new h fd ps =
     \<lparr>field_descriptor = fd, variables = SetEnumVariables h ps fd\<rparr>"

subsection \<open>\<^verbatim>\<open>EnumFieldGenerator\<close>\<close>

definition EnumFieldGenerator_GenerateMembers :: "FieldGenerator \<Rightarrow> Printer \<Rightarrow> Printer" where
  "EnumFieldGenerator_GenerateMembers g printer =
     Print (variables g) ''public int $name$ = $default$;\<newline>'' printer"

definition EnumFieldGenerator_GenerateMergingCode :: "FieldGenerator \<Rightarrow> Printer \<Rightarrow> Printer" where
  "EnumFieldGenerator_GenerateMergingCode g printer =
     Print (variables g)
       (''what is other??'' @
        ''if (other.has$capitalized_name$()) {\<newline>'' @
        ''  set$capitalized_name$(other.get$capitalized_name$());\<newline>'' @
        ''}\<newline>'')
       printer"

definition EnumFieldGenerator_GenerateParsingCode :: "FieldGenerator \<Rightarrow> Printer \<Rightarrow> Printer" where
  "EnumFieldGenerator_GenerateParsingCode g printer =
     Print (variables g) ''  $name$ = input.readInt32();\<newline>'' printer"

definition EnumFieldGenerator_GenerateSerializationCode :: "FieldGenerator \<Rightarrow> Printer \<Rightarrow> Printer" where
  "EnumFieldGenerator_GenerateSerializationCode g printer =
     Print (variables g)
       (''if ($name$ != $default$) {\<newline>'' @
        ''  output.writeInt32($number$, $name$);\<newline>'' @
        ''}\<newline>'')
       printer"

definition EnumFieldGenerator_GenerateSerializedSizeCode :: "FieldGenerator \<Rightarrow> Printer \<Rightarrow> Printer" where
  "EnumFieldGenerator_GenerateSerializedSizeCode g printer =
     Print (variables g)
       (''if ($name$ != $default$) {\<newline>'' @
        ''  size += com.google.protobuf.nano.CodedOutputStreamNano\<newline>'' @
        ''    .computeInt32Size($number$, $name$);\<newline>'' @
        ''}\<newline>'')
       printer"

subsection \<open>\<^verbatim>\<open>RepeatedEnumFieldGenerator\<close>\<close>

definition RepeatedEnumFieldGenerator_GenerateMembers :: "FieldGenerator \<Rightarrow> Printer \<Rightarrow> Printer" where
  "RepeatedEnumFieldGenerator_GenerateMembers g printer =
     (let p1 = Print (variables g) ''public int[] $name$ = EMPTY_INT_ARRAY;\<newline>'' printer
      in if fd_packed (field_descriptor g)
         then Print (variables g) ''private int $name$MemoizedSerializedSize;\<newline>'' p1
         else p1)"

definition RepeatedEnumFieldGenerator_GenerateMergingCode :: "FieldGenerator \<Rightarrow> Printer \<Rightarrow> Printer" where
  "RepeatedEnumFieldGenerator_GenerateMergingCode g printer =
     Print (variables g)
       (''if (other.$name$.length > 0) {\<newline>'' @
        ''  int[] merged = java.util.Arrays.copyOf(result.$name$, result.$name$.length + other.$name$.length);\<newline>'' @
        ''  java.lang.System.arraycopy(other.$name$, 0, merged, results.$name$.length, other.$name$.length);\<newline>'' @
        ''  result.$name$ = merged;\<newline>'' @
        ''}\<newline>'')
       printer"

definition RepeatedEnumFieldGenerator_GenerateParsingCode :: "FieldGenerator \<Rightarrow> Printer \<Rightarrow> Printer" where
  "RepeatedEnumFieldGenerator_GenerateParsingCode g printer =
     (if fd_packed (field_descriptor g)
      then Print (variables g)
             (''int length = input.readRawVarint32();\<newline>'' @
              ''int limit = input.pushLimit(length);\<newline>'' @
              ''int arrayLength = getPackedRepeatedFieldArrayLength(input, $tag$);\<newline>'' @
              ''$name$ = new $type$[arrayLength];\<newline>'' @
              ''for (int i = 0; i < arrayLength; i++) {\<newline>'' @
              ''  $name$[i] = input.readInt32();\<newline>'' @
              ''}\<newline>'' @
              ''input.popLimit(limit);\<newline>'')
             printer
      else Print (variables g)
             (''int arrayLength = getRepeatedFieldArrayLength(input, $tag$);\<newline>'' @
              ''int i = $name$.length;\<newline>'' @
              ''$name$ = java.util.Arrays.copyOf($name$, $name$.length + arrayLength);\<newline>'' @
              ''for (; i < $name$.length - 1; i++) {\<newline>'' @
              ''  $name$[i] = input.readInt32();\<newline>'' @
              ''  input.readTag();\<newline>'' @
              ''}\<newline>'' @
              ''// Last one without readTag.\<newline>'' @
              ''$name$[i] = input.readInt32();\<newline>'')
             printer)"

definition RepeatedEnumFieldGenerator_GenerateSerializationCode :: "FieldGenerator \<Rightarrow> Printer \<Rightarrow> Printer" where
  "RepeatedEnumFieldGenerator_GenerateSerializationCode g printer =
     (let p1 = Indent (Print (variables g) ''if ($name$.length > 0) {\<newline>'' printer);
          p2 = (if fd_packed (field_descriptor g)
                then Print (variables g)
                       (''output.writeRawVarint32($tag$);\<newline>'' @
                        ''output.writeRawVarint32($name$MemoizedSerializedSize);\<newline>'' @
                        ''for (int element : $name$) {\<newline>'' @
                        ''  output.writeRawVarint32(element);\<newline>'' @
                        ''}\<newline>'')
                       p1
                else Print (variables g)
                       (''for (int element : $name$) {\<newline>'' @
                        ''  output.writeInt32($number$, element);\<newline>'' @
                        ''}\<newline>'')
                       p1)
      in Print (variables g) ''}\<newline>'' (Outdent p2))"

definition RepeatedEnumFieldGenerator_GenerateSerializedSizeCode :: "FieldGenerator \<Rightarrow> Printer \<Rightarrow> Printer" where
  "RepeatedEnumFieldGenerator_GenerateSerializedSizeCode g printer =
     (let p1 = Indent (Print (variables g) ''if ($name$.length > 0) {\<newline>'' printer);
          p2 = Print (variables g)
                 (''int dataSize = 0;\<newline>'' @
                  ''for (int element : $name$) {\<newline>'' @
                  ''  dataSize += com.google.protobuf.nano.CodedOutputStreamNano\<newline>'' @
                  ''    .computeInt32SizeNoTag(element);\<newline>'' @
                  ''}\<newline>'')
                 p1;
          p3 = Print Map.empty ''size += dataSize;\<newline>'' p2;
          p4 = (if fd_packed (field_descriptor g)
                then Print (variables g)
                       (''size += $tag_size$;\<newline>'' @
                        ''size += com.google.protobuf.nano.CodedOutputStreamNano\<newline>'' @
                        ''  .computeRawVarint32Size(dataSize);\<newline>'' @
                        ''$name$MemoizedSerializedSize = dataSize;\<newline>'')
                       p3
                else Print (variables g) ''size += $tag_size$ * $name$.length;\<newline>'' p3);
          p5 = Outdent p4
      in if fd_packed (field_descriptor g)
         then Print (variables g)
                (''} else {\<newline>'' @
                 ''  $name$MemoizedSerializedSize = 0;\<newline>'' @
                 ''}\<newline>'')
                p5
         else Print Map.empty ''}\<newline>'' p5)"

section \<open>The runtime the emitted code calls\<close>

type_synonym byte = "8 word"
type_synonym jint = "32 word"

text \<open>
  Modelled from the spec: the Java runtime classes the emitted code calls
  (\<^verbatim>\<open>CodedOutputStreamNano\<close>, the coded input stream, \<^verbatim>\<open>java.util.Arrays\<close>) are not
  among the sources. The spec speaks of variable-length-encoded values, of reading one
  signed 32-bit variable-length integer, and of an external stream abstraction that
  surfaces truncated or malformed input as a failure. The model is the protocol buffer
  wire format: a variable-length integer is written seven bits at a time, low group
  first, every byte but the last with its high bit set. \<^verbatim>\<open>writeRawVarint32\<close> writes the
  32 bits of its argument as an unsigned number; \<^verbatim>\<open>writeInt32NoTag\<close> writes a
  non-negative value the same way and a negative one sign-extended to 64 bits (ten
  bytes); \<^verbatim>\<open>computeInt32SizeNoTag\<close> and \<^verbatim>\<open>computeRawVarint32Size\<close> are the matching
  byte counts.
\<close>

function varint :: "nat \<Rightarrow> byte list" where
  "varint n = (if n < 128 then [of_nat n] else of_nat (n mod 128 + 128) # varint (n div 128))"
  by pat_completeness auto
termination
  by (relation "measure id") auto

declare varint.simps [simp del]

text \<open>
  Modelled from the spec: \<^verbatim>\<open>writeRawVarint32\<close> of the runtime, the 32
  bits of the argument as an unsigned number.
\<close>

definition writeRawVarint32 :: "jint \<Rightarrow> byte list" where
  "writeRawVarint32 v = varint (unat v)"

text \<open>
  Modelled from the spec: \<^verbatim>\<open>writeRawVarint64\<close> of the runtime.
\<close>

definition writeRawVarint64 :: "64 word \<Rightarrow> byte list" where
  "writeRawVarint64 v = varint (unat v)"

text \<open>
  Modelled from the spec: \<^verbatim>\<open>writeInt32NoTag\<close> of the runtime; a
  negative value is sign-extended to 64 bits.
\<close>

definition writeInt32NoTag :: "jint \<Rightarrow> byte list" where
  "writeInt32NoTag v =
     (if 0 \<le> sint v then writeRawVarint32 v else writeRawVarint64 (scast v))"

text \<open>Modelled from the spec: \<^verbatim>\<open>makeTag\<close> of the runtime.\<close>

definition makeTag :: "jint \<Rightarrow> jint \<Rightarrow> jint" where
  "makeTag fieldNumber wireType = push_bit 3 fieldNumber OR wireType"

text \<open>Modelled from the spec: \<^verbatim>\<open>writeTag\<close> of the runtime.\<close>

definition writeTag :: "jint \<Rightarrow> jint \<Rightarrow> byte list" where
  "writeTag fieldNumber wireType = writeRawVarint32 (makeTag fieldNumber wireType)"

text \<open>
  Modelled from the spec: \<^verbatim>\<open>writeInt32\<close> of the runtime, the tag with
  wire type 0 and the value.
\<close>

definition writeInt32 :: "jint \<Rightarrow> jint \<Rightarrow> byte list" where
  "writeInt32 fieldNumber v = writeTag fieldNumber 0 @ writeInt32NoTag v"

text \<open>
  Modelled from the spec: \<^verbatim>\<open>computeRawVarint32Size\<close> of the runtime.
\<close>

definition computeRawVarint32Size :: "jint \<Rightarrow> jint" where
  "computeRawVarint32Size v =
     (if unat v < 2 ^ 7 then 1 else if unat v < 2 ^ 14 then 2 else if unat v < 2 ^ 21 then 3
      else if unat v < 2 ^ 28 then 4 else 5)"

text \<open>
  Modelled from the spec: \<^verbatim>\<open>computeInt32SizeNoTag\<close> of the runtime;
  ten bytes for a negative value.
\<close>

definition computeInt32SizeNoTag :: "jint \<Rightarrow> jint" where
  "computeInt32SizeNoTag v = (if 0 \<le> sint v then computeRawVarint32Size v else 10)"

text \<open>
  Modelled from the spec: \<^verbatim>\<open>computeTagSize\<close> of the runtime.
\<close>

definition computeTagSize :: "jint \<Rightarrow> jint" where
  "computeTagSize fieldNumber = computeRawVarint32Size (makeTag fieldNumber 0)"

text \<open>
  Modelled from the spec: \<^verbatim>\<open>computeInt32Size\<close> of the runtime.
\<close>

definition computeInt32Size :: "jint \<Rightarrow> jint \<Rightarrow> jint" where
  "computeInt32Size fieldNumber v = computeTagSize fieldNumber + computeInt32SizeNoTag v"

text \<open>
  The input stream: the bytes not yet read, the position reached, and the position of
  the current limit. Reading at the end of the bytes or at the limit fails.
\<close>

datatype io_error =
  TruncatedMessage | MalformedVarint | InvalidTag | NegativeSize
  | NegativeArraySize | ArrayIndexOutOfBounds

record Input =
  rest :: "byte list"
  pos :: nat
  limit :: nat


text \<open>
  Modelled from the spec: \<^verbatim>\<open>readRawByte\<close> of the runtime.
\<close>

definition readRawByte :: "Input \<Rightarrow> io_error + byte \<times> Input" where
  "readRawByte inp =
     (case rest inp of
        [] \<Rightarrow> Inl TruncatedMessage
      | b # bs \<Rightarrow>
          if limit inp \<le> pos inp then Inl TruncatedMessage
          else Inr (b, inp\<lparr>rest := bs, pos := pos inp + 1\<rparr>))"

text \<open>
  Modelled from the spec: a variable-length integer of at most \<open>k\<close> bytes read from the
  input, as a natural number.
\<close>

fun readVarint :: "nat \<Rightarrow> Input \<Rightarrow> io_error + nat \<times> Input" where
  "readVarint 0 inp = Inl MalformedVarint"
| "readVarint (Suc k) inp =
     (case readRawByte inp of
        Inl e \<Rightarrow> Inl e
      | Inr (b, inp1) \<Rightarrow>
          if unat b < 128 then Inr (unat b, inp1)
          else (case readVarint k inp1 of
                  Inl e \<Rightarrow> Inl e
                | Inr (v, inp2) \<Rightarrow> Inr (unat b - 128 + 128 * v, inp2)))"

text \<open>
  Modelled from the spec: \<^verbatim>\<open>readRawVarint32\<close> of the runtime. At most
  ten bytes are read; the bits above the low 32 are discarded.
\<close>

definition readRawVarint32 :: "Input \<Rightarrow> io_error + jint \<times> Input" where
  "readRawVarint32 inp =
     (case readVarint 10 inp of Inl e \<Rightarrow> Inl e | Inr (v, inp1) \<Rightarrow> Inr (of_nat v, inp1))"

text \<open>Modelled from the spec: \<^verbatim>\<open>readInt32\<close> of the runtime.\<close>

definition readInt32 :: "Input \<Rightarrow> io_error + jint \<times> Input" where
  "readInt32 inp = readRawVarint32 inp"

text \<open>Modelled from the spec: \<^verbatim>\<open>isAtEnd\<close> of the runtime.\<close>

definition isAtEnd :: "Input \<Rightarrow> bool" where
  "isAtEnd inp = (rest inp = [] \<or> limit inp \<le> pos inp)"

text \<open>
  Modelled from the spec: \<^verbatim>\<open>readTag\<close> of the runtime; 0 at the end of
  the input, and a tag read as 0 is invalid.
\<close>

definition readTag :: "Input \<Rightarrow> io_error + jint \<times> Input" where
  "readTag inp =
     (if isAtEnd inp then Inr (0, inp)
      else case readRawVarint32 inp of
             Inl e \<Rightarrow> Inl e
           | Inr (t, inp1) \<Rightarrow> if t = 0 then Inl InvalidTag else Inr (t, inp1))"

text \<open>
  Modelled from the spec: \<^verbatim>\<open>pushLimit\<close> of the runtime; it returns
  the limit it replaces.
\<close>

definition pushLimit :: "jint \<Rightarrow> Input \<Rightarrow> io_error + nat \<times> Input" where
  "pushLimit byteLimit inp =
     (if sint byteLimit < 0 then Inl NegativeSize
      else if limit inp < pos inp + nat (sint byteLimit) then Inl TruncatedMessage
      else Inr (limit inp, inp\<lparr>limit := pos inp + nat (sint byteLimit)\<rparr>))"

text \<open>Modelled from the spec: \<^verbatim>\<open>popLimit\<close> of the runtime.\<close>

definition popLimit :: "nat \<Rightarrow> Input \<Rightarrow> Input" where
  "popLimit oldLimit inp = inp\<lparr>limit := oldLimit\<rparr>"

text \<open>
  Modelled from the spec: the lookahead helpers \<^verbatim>\<open>getRepeatedFieldArrayLength\<close> and
  \<^verbatim>\<open>getPackedRepeatedFieldArrayLength\<close> that the emitted parsing code calls are not among
  the sources. The spec has the first report how many consecutive elements belong to this
  field, and the second determine the element count within the span; neither consumes
  input. The first skips one element and goes on while the next tag read is the field's
  own; the second counts the bytes of the span that end a variable-length integer.
\<close>

function count_run :: "jint \<Rightarrow> Input \<Rightarrow> io_error + nat" where
  "count_run tag inp =
     (case readRawVarint32 inp of
        Inl e \<Rightarrow> Inl e
      | Inr (v, inp1) \<Rightarrow>
          if isAtEnd inp1 then Inr 1
          else (case readTag inp1 of
                  Inl e \<Rightarrow> Inl e
                | Inr (t, inp2) \<Rightarrow>
                    if t \<noteq> tag then Inr 1
                    else (case count_run tag inp2 of
                            Inl e \<Rightarrow> Inl e
                          | Inr n \<Rightarrow> Inr (Suc n))))"
  by pat_completeness auto
termination
proof -
  have rb: "length (rest j) < length (rest i)" if "readRawByte i = Inr (b, j)" for i j b
    using that by (auto simp: readRawByte_def split: list.splits if_splits)
  have rv: "length (rest j) < length (rest i)" if "readVarint k i = Inr (w, j)" for k i j w
    using that
  proof (induction k arbitrary: i j w)
    case 0 then show ?case by simp
  next
    case (Suc k)
    from Suc.prems obtain b i1 where b: "readRawByte i = Inr (b, i1)"
      by (auto split: sum.splits)
    show ?case
    proof (cases "unat b < 128")
      case True with Suc.prems b rb [OF b] show ?thesis by simp
    next
      case False
      with Suc.prems b obtain w' where "readVarint k i1 = Inr (w', j)"
        by (auto split: sum.splits)
      from Suc.IH [OF this] rb [OF b] show ?thesis by simp
    qed
  qed
  have r32: "length (rest j) < length (rest i)" if "readRawVarint32 i = Inr (w, j)" for i j w
    using that rv by (auto simp: readRawVarint32_def split: sum.splits)
  have rt: "length (rest j) \<le> length (rest i)" if "readTag i = Inr (t, j)" for i j t
    using that r32 by (fastforce simp: readTag_def split: sum.splits if_splits)
  show ?thesis
  proof (relation "measure (\<lambda>(tag, inp). length (rest inp))", goal_cases)
    case 1 show ?case by simp
  next
    case (2 tag inp x v inp1 x2 t inp2)
    then have "length (rest inp1) < length (rest inp)" "length (rest inp2) \<le> length (rest inp1)"
      using r32 rt by metis+
    then show ?case by simp
  qed
qed

declare count_run.simps [simp del]

text \<open>
  Modelled from the spec: \<^verbatim>\<open>getRepeatedFieldArrayLength\<close>; the input
  is left where it was.
\<close>

definition getRepeatedFieldArrayLength :: "Input \<Rightarrow> jint \<Rightarrow> io_error + jint \<times> Input" where
  "getRepeatedFieldArrayLength inp tag =
     (case count_run tag inp of Inl e \<Rightarrow> Inl e | Inr n \<Rightarrow> Inr (of_nat n, inp))"

text \<open>
  Modelled from the spec: \<^verbatim>\<open>getPackedRepeatedFieldArrayLength\<close>; the
  input is left where it was.
\<close>

definition getPackedRepeatedFieldArrayLength :: "Input \<Rightarrow> jint \<Rightarrow> io_error + jint \<times> Input" where
  "getPackedRepeatedFieldArrayLength inp tag =
     Inr (of_nat (length (filter (\<lambda>b. unat b < 128) (take (limit inp - pos inp) (rest inp)))),
          inp)"

section \<open>Enum fields: what the emitted code does\<close>






text \<open>
  The literals. \<^verbatim>\<open>$tag$\<close> is printed as an unsigned 32-bit number, and Java reads a
  decimal literal as an \<^verbatim>\<open>int\<close> only below \<open>2 ^ 31\<close>: \<open>tag_literal\<close> is the value
  of the emitted literal for a field with \<open>MakeTag fd < 2 ^ 31\<close>, that is for a field
  number below \<open>2 ^ 28\<close>. For a larger tag the emitted text is no Java \<^verbatim>\<open>int\<close> literal;
  the properties proved of the fragments that contain \<^verbatim>\<open>$tag$\<close> assume the bound.
\<close>

definition number_literal :: "FieldDescriptor \<Rightarrow> jint" where
  "number_literal fd = word_of_int (fd_number fd)"

definition tag_literal :: "FieldDescriptor \<Rightarrow> jint" where
  "tag_literal fd = word_of_int (MakeTag fd)"

definition tag_size_literal :: "FieldDescriptor \<Rightarrow> jint" where
  "tag_size_literal fd = word_of_int (TagSize (fd_number fd))"

subsection \<open>A singular field\<close>



text \<open>\<^verbatim>\<open>$name$ = input.readInt32();\<close>\<close>

definition exec_singular_ParsingCode :: "Input \<Rightarrow> io_error + jint \<times> Input" where
  "exec_singular_ParsingCode input = readInt32 input"

subsection \<open>A repeated field\<close>

text \<open>
  The members of a repeated field: the array \<^verbatim>\<open>$name$\<close> and, for a packed field, the
  cache cell \<^verbatim>\<open>$name$MemoizedSerializedSize\<close>.
\<close>

record RepeatedField =
  elems :: "jint list"
  memoized :: jint

definition new_RepeatedField :: RepeatedField where
  "new_RepeatedField = \<lparr>elems = [], memoized = 0\<rparr>"

text \<open>
  \<^verbatim>\<open>for (int element : $name$) { dataSize += CodedOutputStreamNano.computeInt32SizeNoTag(element); }\<close>
\<close>

fun dataSize_loop :: "jint list \<Rightarrow> jint \<Rightarrow> jint" where
  "dataSize_loop [] dataSize = dataSize"
| "dataSize_loop (element # es) dataSize =
     dataSize_loop es (dataSize + computeInt32SizeNoTag element)"

text \<open>
  The size fragment: the state of the field and the running \<^verbatim>\<open>size\<close> after it.
\<close>

definition exec_SerializedSizeCode ::
  "FieldDescriptor \<Rightarrow> RepeatedField \<Rightarrow> jint \<Rightarrow> RepeatedField \<times> jint" where
  "exec_SerializedSizeCode fd this size0 =
     (if length (elems this) > 0
      then
        let dataSize = dataSize_loop (elems this) 0;
            size1 = size0 + dataSize
        in if fd_packed fd
           then (this\<lparr>memoized := dataSize\<rparr>,
                 size1 + tag_size_literal fd + computeRawVarint32Size dataSize)
           else (this, size1 + tag_size_literal fd * of_nat (length (elems this)))
      else if fd_packed fd then (this\<lparr>memoized := 0\<rparr>, size0) else (this, size0))"

text \<open>\<^verbatim>\<open>for (int element : $name$) { output.writeRawVarint32(element); }\<close>\<close>

fun write_packed_elements :: "jint list \<Rightarrow> byte list \<Rightarrow> byte list" where
  "write_packed_elements [] output = output"
| "write_packed_elements (element # es) output =
     write_packed_elements es (output @ writeRawVarint32 element)"

text \<open>\<^verbatim>\<open>for (int element : $name$) { output.writeInt32($number$, element); }\<close>\<close>

fun write_tagged_elements :: "jint \<Rightarrow> jint list \<Rightarrow> byte list \<Rightarrow> byte list" where
  "write_tagged_elements number [] output = output"
| "write_tagged_elements number (element # es) output =
     write_tagged_elements number es (output @ writeInt32 number element)"

definition exec_SerializationCode ::
  "FieldDescriptor \<Rightarrow> RepeatedField \<Rightarrow> byte list \<Rightarrow> byte list" where
  "exec_SerializationCode fd this output =
     (if length (elems this) > 0
      then
        if fd_packed fd
        then write_packed_elements (elems this)
               (output @ writeRawVarint32 (tag_literal fd) @ writeRawVarint32 (memoized this))
        else write_tagged_elements (number_literal fd) (elems this) output
      else output)"

text \<open>
  The merging fragment names three objects: \<^verbatim>\<open>other\<close>, \<^verbatim>\<open>result\<close> and, for the
  position of the copy, \<^verbatim>\<open>results\<close>. The emitted text declares none of them, so each
  is a parameter. \<^verbatim>\<open>Arrays.copyOf\<close> pads with zeros or truncates, and throws for a
  negative length; \<^verbatim>\<open>System.arraycopy\<close> throws when the copy does not fit. The result is
  the new state of \<^verbatim>\<open>result\<close>.
\<close>

text \<open>
  Modelled from the spec: \<^verbatim>\<open>java.util.Arrays.copyOf\<close> of the Java
  library.
\<close>

definition copyOf :: "jint list \<Rightarrow> jint \<Rightarrow> io_error + jint list" where
  "copyOf original newLength =
     (if sint newLength < 0 then Inl NegativeArraySize
      else Inr (take (nat (sint newLength)) original
                @ replicate (nat (sint newLength) - length original) 0))"

text \<open>
  Modelled from the spec: \<^verbatim>\<open>java.lang.System.arraycopy\<close> of the Java
  library.
\<close>

definition arraycopy :: "jint list \<Rightarrow> nat \<Rightarrow> jint list \<Rightarrow> nat \<Rightarrow> nat \<Rightarrow> io_error + jint list" where
  "arraycopy src srcPos dest destPos len =
     (if length src < srcPos + len \<or> length dest < destPos + len then Inl ArrayIndexOutOfBounds
      else Inr (take destPos dest @ take len (drop srcPos src) @ drop (destPos + len) dest))"

definition exec_MergingCode ::
  "RepeatedField \<Rightarrow> RepeatedField \<Rightarrow> RepeatedField \<Rightarrow> io_error + RepeatedField" where
  "exec_MergingCode other result results =
     (if length (elems other) > 0
      then
        case copyOf (elems result) (of_nat (length (elems result)) + of_nat (length (elems other))) of
          Inl e \<Rightarrow> Inl e
        | Inr merged0 \<Rightarrow>
            (case arraycopy (elems other) 0 merged0 (length (elems results)) (length (elems other)) of
               Inl e \<Rightarrow> Inl e
             | Inr merged \<Rightarrow> Inr (result\<lparr>elems := merged\<rparr>))
      else Inr result)"




text \<open>
  Unpacked: \<^verbatim>\<open>for (; i < $name$.length - 1; i++) { $name$[i] = input.readInt32(); input.readTag(); }\<close>
  The loop returns the index reached as well.
\<close>

function unpacked_loop :: "nat \<Rightarrow> jint list \<Rightarrow> Input \<Rightarrow> nat \<times> jint list \<times> (io_error + Input)" where
  "unpacked_loop i name input =
     (if int i < int (length name) - 1
      then case readInt32 input of
             Inl e \<Rightarrow> (i, name, Inl e)
           | Inr (v, input1) \<Rightarrow>
               (case readTag input1 of
                  Inl e \<Rightarrow> (i, name[i := v], Inl e)
                | Inr (t, input2) \<Rightarrow> unpacked_loop (i + 1) (name[i := v]) input2)
      else (i, name, Inr input))"
  by pat_completeness auto
termination
  by (relation "measure (\<lambda>(i, name, input). length name - i)") auto

declare unpacked_loop.simps [simp del]

definition exec_ParsingCode_unpacked ::
  "(Input \<Rightarrow> jint \<Rightarrow> io_error + jint \<times> Input) \<Rightarrow> FieldDescriptor \<Rightarrow> RepeatedField \<Rightarrow> Input
     \<Rightarrow> RepeatedField \<times> (io_error + Input)" where
  "exec_ParsingCode_unpacked getLength fd this input =
     (case getLength input (tag_literal fd) of
        Inl e \<Rightarrow> (this, Inl e)
      | Inr (arrayLength, input1) \<Rightarrow>
          (case copyOf (elems this) (of_nat (length (elems this)) + arrayLength) of
             Inl e \<Rightarrow> (this, Inl e)
           | Inr name0 \<Rightarrow>
               (case unpacked_loop (length (elems this)) name0 input1 of
                  (i, name, Inl e) \<Rightarrow> (this\<lparr>elems := name\<rparr>, Inl e)
                | (i, name, Inr input2) \<Rightarrow>
                    (case readInt32 input2 of
                       Inl e \<Rightarrow> (this\<lparr>elems := name\<rparr>, Inl e)
                     | Inr (v, input3) \<Rightarrow>
                         if i < length name then (this\<lparr>elems := name[i := v]\<rparr>, Inr input3)
                         else (this\<lparr>elems := name\<rparr>, Inl ArrayIndexOutOfBounds)))))"







text \<open>Two example fields with the number 1, one packed and one not.\<close>

definition packed_example :: FieldDescriptor where
  "packed_example =
     \<lparr>fd_name = ''colors'', fd_number = 1, fd_packed = True, fd_message_name = ''M''\<rparr>"

definition unpacked_example :: FieldDescriptor where
  "unpacked_example =
     \<lparr>fd_name = ''colors'', fd_number = 1, fd_packed = False, fd_message_name = ''M''\<rparr>"


text \<open>
  Naming helpers for the examples: the emitted name of a field is its declared name, its
  default \<^verbatim>\<open>RED\<close>.
\<close>

definition example_helpers :: Helpers where
  "example_helpers =
     \<lparr>UnderscoresToCamelCase = fd_name,
      UnderscoresToCapitalizedCamelCase = (\<lambda>fd. ''Colors''),
      DefaultValue = (\<lambda>ps fd. ''RED'')\<rparr>"

section \<open>Properties of the enumeration generator\<close>


lemma foldl_step_descriptor: "descriptor (foldl EnumGenerator_step g xs) = descriptor g"
  by (induction xs arbitrary: g) (simp_all add: EnumGenerator_step_def Let_def)

lemma foldl_step_canonical:
  "canonical_values (foldl EnumGenerator_step g xs) =
     canonical_values g @
       filter (\<lambda>i. FindValueByNumber (descriptor g) (number_at (descriptor g) i) = Some i) xs"
proof (induction xs arbitrary: g)
  case Nil show ?case by simp
next
  case (Cons x xs)
  have d: "descriptor (EnumGenerator_step g x) = descriptor g"
    by (simp add: EnumGenerator_step_def Let_def)
  show ?case
    unfolding foldl_Cons Cons.IH d
    by (auto simp: EnumGenerator_step_def Let_def)
qed

lemma foldl_step_aliases:
  "aliases (foldl EnumGenerator_step g xs) =
     aliases g @
       map (\<lambda>i. \<lparr>alias_value = i,
                 canonical_value = FindValueByNumber (descriptor g) (number_at (descriptor g) i)\<rparr>)
         (filter (\<lambda>i. FindValueByNumber (descriptor g) (number_at (descriptor g) i) \<noteq> Some i) xs)"
proof (induction xs arbitrary: g)
  case Nil show ?case by simp
next
  case (Cons x xs)
  have d: "descriptor (EnumGenerator_step g x) = descriptor g"
    by (simp add: EnumGenerator_step_def Let_def)
  show ?case
    unfolding foldl_Cons Cons.IH d
    by (auto simp: EnumGenerator_step_def Let_def)
qed

lemma FindValueByNumber_Some_iff:
  "FindValueByNumber d n = Some c \<longleftrightarrow>
     c < value_count d \<and> number_at d c = n \<and> (\<forall>j<c. number_at d j \<noteq> n)"
  unfolding FindValueByNumber_def find_Some_iff
  by (auto simp: nth_upt)

lemma FindValueByNumber_total:
  assumes "i < value_count d"
  shows "\<exists>c. FindValueByNumber d (number_at d i) = Some c \<and> c \<le> i"
proof -
  let ?P = "\<lambda>j. number_at d j = number_at d i"
  define c where "c = (LEAST j. ?P j)"
  have Pc: "?P c" unfolding c_def by (rule LeastI [of ?P i]) simp
  have le: "c \<le> i" unfolding c_def by (rule Least_le) simp
  have "\<forall>j<c. \<not> ?P j" unfolding c_def using not_less_Least by blast
  with Pc le assms have "FindValueByNumber d (number_at d i) = Some c"
    by (simp add: FindValueByNumber_Some_iff)
  with le show ?thesis by blast
qed

lemma FindValueByNumber_stable:
  "FindValueByNumber d n = Some c \<Longrightarrow> FindValueByNumber d (number_at d c) = Some c"
  by (simp add: FindValueByNumber_Some_iff)

text \<open>
  Claim C4. Every alias built by the constructor is paired with a canonical value: its
  \<open>canonical_value\<close> is not null, it is a member of \<open>canonical_values\<close>, it is the
  value of no alias, and looking up its own number gives it back, so resolving once more
  changes nothing.
\<close>

theorem alias_resolves_to_canonical:
  assumes "a \<in> set (aliases (EnumGenerator_new d ps))"
  shows "\<exists>c. canonical_value a = Some c
           \<and> c \<in> set (canonical_values (EnumGenerator_new d ps))
           \<and> c \<notin> alias_value ` set (aliases (EnumGenerator_new d ps))
           \<and> FindValueByNumber d (number_at d c) = Some c"
proof -
  from assms obtain i where i: "i < value_count d"
    and a: "a = \<lparr>alias_value = i, canonical_value = FindValueByNumber d (number_at d i)\<rparr>"
    by (auto simp: EnumGenerator_new_def foldl_step_aliases)
  from FindValueByNumber_total [OF i] obtain c
    where c: "FindValueByNumber d (number_at d i) = Some c" by blast
  then have st: "FindValueByNumber d (number_at d c) = Some c"
    by (rule FindValueByNumber_stable)
  from c have cn: "c < value_count d" by (simp add: FindValueByNumber_Some_iff)
  have "c \<in> set (canonical_values (EnumGenerator_new d ps))"
    using st cn by (simp add: EnumGenerator_new_def foldl_step_canonical)
  moreover have "c \<notin> alias_value ` set (aliases (EnumGenerator_new d ps))"
    using st by (auto simp: EnumGenerator_new_def foldl_step_aliases)
  ultimately show ?thesis using a c st by simp
qed

lemma example_generator:
  "EnumGenerator_new example_enum plain_params =
     \<lparr>params = plain_params, descriptor = example_enum, canonical_values = [0],
      aliases = [\<lparr>alias_value = 1, canonical_value = Some 0\<rparr>]\<rparr>"
  by (simp add: EnumGenerator_new_def EnumGenerator_step_def FindValueByNumber_def
      value_count_def number_at_def example_enum_def upt_rec Let_def)

theorem alias_resolves_to_canonical_witness:
  "\<lparr>alias_value = 1, canonical_value = Some 0\<rparr> \<in> set (aliases (EnumGenerator_new example_enum plain_params))
   \<and> (\<exists>c. canonical_value \<lparr>alias_value = 1, canonical_value = Some 0\<rparr> = Some c
           \<and> c \<in> set (canonical_values (EnumGenerator_new example_enum plain_params))
           \<and> c \<notin> alias_value ` set (aliases (EnumGenerator_new example_enum plain_params))
           \<and> FindValueByNumber example_enum (number_at example_enum c) = Some c)"
proof -
  have h: "\<lparr>alias_value = 1, canonical_value = Some 0\<rparr>
             \<in> set (aliases (EnumGenerator_new example_enum plain_params))"
    by (simp add: example_generator)
  from alias_resolves_to_canonical [OF h] h show ?thesis by simp
qed


lemma WriteRaw_mid_line:
  "\<not> at_start_of_line p \<Longrightarrow> WriteRaw s p = p\<lparr>buffer := buffer p @ s\<rparr>"
  by (simp add: WriteRaw_def)

lemma WriteRaw_line_start:
  "at_start_of_line p \<Longrightarrow> s \<noteq> [] \<Longrightarrow>
   WriteRaw s p = p\<lparr>buffer := buffer p @ indent_str p @ s, at_start_of_line := False\<rparr>"
  by (simp add: WriteRaw_def)

lemma WriteRaw_Nil: "WriteRaw [] p = p"
  by (simp add: WriteRaw_def)

lemmas Print_simps = Print_def substitute_def WriteRaw_mid_line WriteRaw_line_start WriteRaw_Nil

lemma Print_canonical_line:
  "at_start_of_line p \<Longrightarrow>
   Print [''name'' \<mapsto> n, ''canonical_value'' \<mapsto> v]
     ''public static final int $name$ = $canonical_value$;\<newline>'' p
   = p\<lparr>buffer := buffer p @ indent_str p @ ''public static final int '' @ n @ '' = '' @ v @ '';\<newline>''\<rparr>"
  by (simp add: Print_simps)

lemma Print_alias_line:
  "at_start_of_line p \<Longrightarrow>
   Print [''name'' \<mapsto> n, ''canonical_name'' \<mapsto> v]
     ''public static final int $name$ = $canonical_name$;\<newline>'' p
   = p\<lparr>buffer := buffer p @ indent_str p @ ''public static final int '' @ n @ '' = '' @ v @ '';\<newline>''\<rparr>"
  by (simp add: Print_simps)

lemma print_canonical_values_text:
  "at_start_of_line p \<Longrightarrow>
   print_canonical_values rename d cs p =
     p\<lparr>buffer := buffer p @ concat (map (\<lambda>i. indent_str p @ ''public static final int '' @
            rename (name_at d i) @ '' = '' @ SimpleItoa (number_at d i) @ '';\<newline>'') cs)\<rparr>"
proof (induction cs arbitrary: p)
  case Nil show ?case by simp
next
  case (Cons i cs)
  show ?case
    unfolding print_canonical_values.simps Print_canonical_line [OF Cons.prems]
    by (subst Cons.IH) (simp_all add: Cons.prems)
qed

lemma print_aliases_text:
  "at_start_of_line p \<Longrightarrow> \<forall>a\<in>set as. canonical_value a \<noteq> None \<Longrightarrow>
   print_aliases rename d as p =
     Inr (p\<lparr>buffer := buffer p @ concat (map (\<lambda>a. indent_str p @ ''public static final int '' @
            rename (name_at d (alias_value a)) @ '' = '' @
            rename (name_at d (the (canonical_value a))) @ '';\<newline>'') as)\<rparr>)"
proof (induction as arbitrary: p)
  case Nil show ?case by simp
next
  case (Cons a as)
  from Cons.prems obtain c where c: "canonical_value a = Some c" by auto
  show ?case
    unfolding print_aliases.simps c option.case Print_alias_line [OF Cons.prems(1)]
    by (subst Cons.IH) (use Cons.prems c in simp_all)
qed

lemma shell_class_start_at_start: "at_start_of_line (shell_class_start rename g p)"
  by (cases "at_start_of_line p") (simp_all add: shell_class_start_def Print_simps Indent_def Let_def)


lemma first_declared_filter:
  "filter (\<lambda>i. FindValueByNumber d (number_at d i) = Some i) [0..<value_count d] =
   filter (\<lambda>i. \<forall>j<i. number_at d j \<noteq> number_at d i) [0..<value_count d]"
  by (rule filter_cong) (auto simp: FindValueByNumber_Some_iff)

lemma later_declared_filter:
  "filter (\<lambda>i. FindValueByNumber d (number_at d i) \<noteq> Some i) [0..<value_count d] =
   filter (\<lambda>i. \<exists>j<i. number_at d j = number_at d i) [0..<value_count d]"
  by (rule filter_cong) (auto simp: FindValueByNumber_Some_iff)

lemma alias_canonical_first:
  assumes "a \<in> set (aliases (EnumGenerator_new d ps))"
  shows "\<exists>c<alias_value a. canonical_value a = Some c
            \<and> number_at d c = number_at d (alias_value a)
            \<and> (\<forall>j<c. number_at d j \<noteq> number_at d c)"
proof -
  from assms obtain i where i: "i < value_count d"
    and ne: "FindValueByNumber d (number_at d i) \<noteq> Some i"
    and a: "a = \<lparr>alias_value = i, canonical_value = FindValueByNumber d (number_at d i)\<rparr>"
    by (auto simp: EnumGenerator_new_def foldl_step_aliases)
  from FindValueByNumber_total [OF i] obtain c
    where c: "FindValueByNumber d (number_at d i) = Some c" and le: "c \<le> i" by blast
  from c ne le have "c < i" by (cases "c = i") auto
  moreover from c have "number_at d c = number_at d i" "\<forall>j<c. number_at d j \<noteq> number_at d c"
    by (simp_all add: FindValueByNumber_Some_iff)
  ultimately show ?thesis using a c by simp
qed

lemma Generate_text:
  "\<exists>p3. Generate rename (EnumGenerator_new d ps) p
            = Inr (shell_class_end (EnumGenerator_new d ps) p3)
      \<and> buffer p3 =
          buffer (shell_class_start rename (EnumGenerator_new d ps) p) @
          concat (map (\<lambda>i. indent_str (shell_class_start rename (EnumGenerator_new d ps) p) @
                        ''public static final int '' @ rename (name_at d i) @ '' = '' @
                        SimpleItoa (number_at d i) @ '';\<newline>'')
                    (canonical_values (EnumGenerator_new d ps))) @
          concat (map (\<lambda>a. indent_str (shell_class_start rename (EnumGenerator_new d ps) p) @
                        ''public static final int '' @ rename (name_at d (alias_value a)) @ '' = '' @
                        rename (name_at d (the (canonical_value a))) @ '';\<newline>'')
                    (aliases (EnumGenerator_new d ps)))"
proof -
  let ?g = "EnumGenerator_new d ps"
  let ?p2 = "shell_class_start rename ?g p"
  have dg: "descriptor ?g = d"
    by (simp add: EnumGenerator_new_def foldl_step_descriptor)
  have s2: "at_start_of_line ?p2" by (rule shell_class_start_at_start)
  have s3: "at_start_of_line (print_canonical_values rename d (canonical_values ?g) ?p2)"
    by (simp add: print_canonical_values_text [OF s2] s2)
  have nn: "\<forall>a\<in>set (aliases ?g). canonical_value a \<noteq> None"
    using alias_canonical_first by fastforce
  show ?thesis
    unfolding Generate_def Let_def dg print_aliases_text [OF s3 nn] sum.case
    by (rule exI, rule conjI, rule refl) (simp add: print_canonical_values_text [OF s2])
qed

text \<open>
  Claim C3. The canonical values are exactly the values with no earlier value of the same
  number, in declaration order; every other value is an alias paired with the first
  declared value of its number; and \<^verbatim>\<open>Generate\<close> writes one constant per canonical
  value, equal to the decimal text of its number, then one constant per alias, equal to
  the emitted name of its canonical value.
\<close>

theorem canonical_is_first_declared:
  "canonical_values (EnumGenerator_new d ps)
     = filter (\<lambda>i. \<forall>j<i. number_at d j \<noteq> number_at d i) [0..<value_count d]
   \<and> map alias_value (aliases (EnumGenerator_new d ps))
     = filter (\<lambda>i. \<exists>j<i. number_at d j = number_at d i) [0..<value_count d]
   \<and> (\<forall>a\<in>set (aliases (EnumGenerator_new d ps)).
        \<exists>c<alias_value a. canonical_value a = Some c
            \<and> number_at d c = number_at d (alias_value a)
            \<and> (\<forall>j<c. number_at d j \<noteq> number_at d c))
   \<and> (\<exists>p3. Generate rename (EnumGenerator_new d ps) p
            = Inr (shell_class_end (EnumGenerator_new d ps) p3)
      \<and> buffer p3 =
          buffer (shell_class_start rename (EnumGenerator_new d ps) p) @
          concat (map (\<lambda>i. indent_str (shell_class_start rename (EnumGenerator_new d ps) p) @
                        ''public static final int '' @ rename (name_at d i) @ '' = '' @
                        SimpleItoa (number_at d i) @ '';\<newline>'')
                    (canonical_values (EnumGenerator_new d ps))) @
          concat (map (\<lambda>a. indent_str (shell_class_start rename (EnumGenerator_new d ps) p) @
                        ''public static final int '' @ rename (name_at d (alias_value a)) @ '' = '' @
                        rename (name_at d (the (canonical_value a))) @ '';\<newline>'')
                    (aliases (EnumGenerator_new d ps))))"
proof (intro conjI)
  show "canonical_values (EnumGenerator_new d ps)
     = filter (\<lambda>i. \<forall>j<i. number_at d j \<noteq> number_at d i) [0..<value_count d]"
    by (simp add: EnumGenerator_new_def foldl_step_canonical first_declared_filter)
  show "map alias_value (aliases (EnumGenerator_new d ps))
     = filter (\<lambda>i. \<exists>j<i. number_at d j = number_at d i) [0..<value_count d]"
    by (simp add: EnumGenerator_new_def foldl_step_aliases later_declared_filter o_def)
  show "\<forall>a\<in>set (aliases (EnumGenerator_new d ps)).
        \<exists>c<alias_value a. canonical_value a = Some c
            \<and> number_at d c = number_at d (alias_value a)
            \<and> (\<forall>j<c. number_at d j \<noteq> number_at d c)"
    using alias_canonical_first by blast
qed (rule Generate_text)

lemma SimpleItoa_5: "SimpleItoa 5 = ''5''"
  by (simp add: SimpleItoa_def decimal.simps digit_char_def)

lemma example_Generate:
  "Generate id (EnumGenerator_new example_enum plain_params) new_Printer =
     Inr (new_Printer\<lparr>buffer :=
       ''// enum E\<newline>public static final int A = 5;\<newline>public static final int B = A;\<newline>\<newline>''\<rparr>)"
  unfolding example_generator
  by (simp add: Generate_def shell_class_start_def shell_class_end_def
      Print_simps new_Printer_def plain_params_def example_enum_def name_at_def number_at_def
      SimpleItoa_5)


theorem canonical_is_first_declared_witness:
  "canonical_values (EnumGenerator_new example_enum plain_params) = [0]
   \<and> aliases (EnumGenerator_new example_enum plain_params)
       = [\<lparr>alias_value = 1, canonical_value = Some 0\<rparr>]
   \<and> (\<exists>c<1. number_at example_enum c = number_at example_enum 1
          \<and> (\<forall>j<c. number_at example_enum j \<noteq> number_at example_enum c))
   \<and> Generate id (EnumGenerator_new example_enum plain_params) new_Printer =
       Inr (new_Printer\<lparr>buffer :=
         ''// enum E\<newline>public static final int A = 5;\<newline>public static final int B = A;\<newline>\<newline>''\<rparr>)"
proof -
  note t = canonical_is_first_declared [of example_enum plain_params id new_Printer]
  have a: "\<lparr>alias_value = 1, canonical_value = Some 0\<rparr>
             \<in> set (aliases (EnumGenerator_new example_enum plain_params))"
    by (simp add: example_generator)
  from t have "\<forall>a\<in>set (aliases (EnumGenerator_new example_enum plain_params)).
        \<exists>c<alias_value a. canonical_value a = Some c
            \<and> number_at example_enum c = number_at example_enum (alias_value a)
            \<and> (\<forall>j<c. number_at example_enum j \<noteq> number_at example_enum c)"
    by blast
  from bspec [OF this a]
  have "\<exists>c<1. number_at example_enum c = number_at example_enum 1
          \<and> (\<forall>j<c. number_at example_enum j \<noteq> number_at example_enum c)"
    by simp
  then show ?thesis
    by (simp add: example_generator [symmetric] example_Generate) (simp add: example_generator)
qed

section \<open>Properties of the emitted merging text\<close>

text \<open>
  Claim C6. The merging fragment emitted for a singular field is not only the guarded
  copy: for every field the emitted text starts with the words \<^verbatim>\<open>what is other??\<close>,
  which stand before the \<^verbatim>\<open>if\<close> and are no Java statement.
\<close>

theorem singular_merge_fragment_text:
  "buffer (EnumFieldGenerator_GenerateMergingCode (EnumFieldGenerator_new h fd ps) new_Printer)
     = ''what is other??if (other.has'' @ UnderscoresToCapitalizedCamelCase h fd @ ''()) {\<newline>''
       @ ''  set'' @ UnderscoresToCapitalizedCamelCase h fd
       @ ''(other.get'' @ UnderscoresToCapitalizedCamelCase h fd @ ''());\<newline>''
       @ ''}\<newline>''"
  by (simp add: EnumFieldGenerator_GenerateMergingCode_def EnumFieldGenerator_new_def
      SetEnumVariables_def new_Printer_def Print_simps)

lemma repeated_merge_fragment_text:
  "buffer (RepeatedEnumFieldGenerator_GenerateMergingCode
             (RepeatedEnumFieldGenerator_new h fd ps) new_Printer)
     = ''if (other.'' @ UnderscoresToCamelCase h fd @ ''.length > 0) {\<newline>''
       @ ''  int[] merged = java.util.Arrays.copyOf(result.'' @ UnderscoresToCamelCase h fd
       @ '', result.'' @ UnderscoresToCamelCase h fd @ ''.length + other.''
       @ UnderscoresToCamelCase h fd @ ''.length);\<newline>''
       @ ''  java.lang.System.arraycopy(other.'' @ UnderscoresToCamelCase h fd
       @ '', 0, merged, results.'' @ UnderscoresToCamelCase h fd @ ''.length, other.''
       @ UnderscoresToCamelCase h fd @ ''.length);\<newline>''
       @ ''  result.'' @ UnderscoresToCamelCase h fd @ '' = merged;\<newline>''
       @ ''}\<newline>''"
  by (simp add: RepeatedEnumFieldGenerator_GenerateMergingCode_def
      RepeatedEnumFieldGenerator_new_def SetEnumVariables_def new_Printer_def Print_simps)

lemma example_merge:
  "exec_MergingCode \<lparr>elems = [1, 2], memoized = 0\<rparr> \<lparr>elems = [3], memoized = 0\<rparr>
       \<lparr>elems = [], memoized = 0\<rparr>
     = Inr \<lparr>elems = [1, 2, 0], memoized = 0\<rparr>"
  by (simp add: exec_MergingCode_def copyOf_def arraycopy_def)

lemma sint_of_nat_jint: "n < 2 ^ 31 \<Longrightarrow> sint (of_nat n :: jint) = int n"
  by (simp add: signed_of_nat signed_take_bit_int_eq_self)

lemma merge_at_result_length:
  assumes "length (elems results) = length (elems result)"
    and "length (elems result) + length (elems other) < 2 ^ 31"
  shows "exec_MergingCode other result results = Inr (result\<lparr>elems := elems result @ elems other\<rparr>)"
proof -
  let ?n = "length (elems result) + length (elems other)"
  have "sint (of_nat ?n :: jint) = int ?n"
    using assms(2) by (rule sint_of_nat_jint)
  then have s: "sint (of_nat (length (elems result)) + of_nat (length (elems other)) :: jint) = int ?n"
    by simp
  show ?thesis
    using assms(1) by (cases "elems other = []") (simp_all add: exec_MergingCode_def copyOf_def arraycopy_def s)
qed

text \<open>
  Claim C5. The merging fragment emitted for a repeated field copies the source at the
  position \<^verbatim>\<open>results.$name$.length\<close>, where \<^verbatim>\<open>results\<close> is not the destination
  \<^verbatim>\<open>result\<close>: with the source \<open>[1, 2]\<close>, the destination \<open>[3]\<close> and \<^verbatim>\<open>results\<close> an
  object whose array is empty, the destination becomes \<open>[1, 2, 0]\<close>, not \<open>[3, 1, 2]\<close>.
  Lemma \<open>merge_at_result_length\<close> above is the append the claim describes, which the
  fragment performs only when the array of \<^verbatim>\<open>results\<close> is as long as the destination's.
\<close>

theorem repeated_merge_copies_at_results_length:
  "buffer (RepeatedEnumFieldGenerator_GenerateMergingCode
             (RepeatedEnumFieldGenerator_new h fd ps) new_Printer)
     = ''if (other.'' @ UnderscoresToCamelCase h fd @ ''.length > 0) {\<newline>''
       @ ''  int[] merged = java.util.Arrays.copyOf(result.'' @ UnderscoresToCamelCase h fd
       @ '', result.'' @ UnderscoresToCamelCase h fd @ ''.length + other.''
       @ UnderscoresToCamelCase h fd @ ''.length);\<newline>''
       @ ''  java.lang.System.arraycopy(other.'' @ UnderscoresToCamelCase h fd
       @ '', 0, merged, results.'' @ UnderscoresToCamelCase h fd @ ''.length, other.''
       @ UnderscoresToCamelCase h fd @ ''.length);\<newline>''
       @ ''  result.'' @ UnderscoresToCamelCase h fd @ '' = merged;\<newline>''
       @ ''}\<newline>''
   \<and> exec_MergingCode \<lparr>elems = [1, 2], memoized = 0\<rparr> \<lparr>elems = [3], memoized = 0\<rparr>
         \<lparr>elems = [], memoized = 0\<rparr>
       = Inr \<lparr>elems = [1, 2, 0], memoized = 0\<rparr>
   \<and> exec_MergingCode \<lparr>elems = [1, 2], memoized = 0\<rparr> \<lparr>elems = [3], memoized = 0\<rparr>
         \<lparr>elems = [], memoized = 0\<rparr>
       \<noteq> Inr \<lparr>elems = [3, 1, 2], memoized = 0\<rparr>"
  by (simp add: repeated_merge_fragment_text example_merge)

section \<open>The fragments emitted for the example fields\<close>

text \<open>
  The text the generators emit for the two example fields, evaluated from the templates.
  These are the Java statements that the definitions of the section on what the emitted
  code does follow.
\<close>

lemma example_variables:
  "SetEnumVariables example_helpers plain_params packed_example =
     [''name'' \<mapsto> ''colors'', ''capitalized_name'' \<mapsto> ''Colors'', ''number'' \<mapsto> ''1'',
      ''type'' \<mapsto> ''int'', ''default'' \<mapsto> ''RED'', ''tag'' \<mapsto> ''10'', ''tag_size'' \<mapsto> ''1'',
      ''message_name'' \<mapsto> ''M'']"
  by (simp add: SetEnumVariables_def example_helpers_def packed_example_def MakeTag_def
      TagSize_def VarintSize32_def WireTypeForField_def SimpleItoa_def decimal.simps
      digit_char_def)

lemma emitted_size_packed:
  "buffer (RepeatedEnumFieldGenerator_GenerateSerializedSizeCode
             (RepeatedEnumFieldGenerator_new example_helpers packed_example plain_params)
             new_Printer)
   = ''if (colors.length > 0) {\<newline>'' @
     ''  int dataSize = 0;\<newline>'' @
     ''  for (int element : colors) {\<newline>'' @
     ''    dataSize += com.google.protobuf.nano.CodedOutputStreamNano\<newline>'' @
     ''      .computeInt32SizeNoTag(element);\<newline>'' @
     ''  }\<newline>'' @
     ''  size += dataSize;\<newline>'' @
     ''  size += 1;\<newline>'' @
     ''  size += com.google.protobuf.nano.CodedOutputStreamNano\<newline>'' @
     ''    .computeRawVarint32Size(dataSize);\<newline>'' @
     ''  colorsMemoizedSerializedSize = dataSize;\<newline>'' @
     ''} else {\<newline>'' @
     ''  colorsMemoizedSerializedSize = 0;\<newline>'' @
     ''}\<newline>''"
  unfolding RepeatedEnumFieldGenerator_GenerateSerializedSizeCode_def
    RepeatedEnumFieldGenerator_new_def example_variables
  by (simp add: new_Printer_def Print_simps Indent_def Outdent_def packed_example_def)

lemma emitted_serialization_packed:
  "buffer (RepeatedEnumFieldGenerator_GenerateSerializationCode
             (RepeatedEnumFieldGenerator_new example_helpers packed_example plain_params)
             new_Printer)
   = ''if (colors.length > 0) {\<newline>'' @
     ''  output.writeRawVarint32(10);\<newline>'' @
     ''  output.writeRawVarint32(colorsMemoizedSerializedSize);\<newline>'' @
     ''  for (int element : colors) {\<newline>'' @
     ''    output.writeRawVarint32(element);\<newline>'' @
     ''  }\<newline>'' @
     ''}\<newline>''"
  unfolding RepeatedEnumFieldGenerator_GenerateSerializationCode_def
    RepeatedEnumFieldGenerator_new_def example_variables
  by (simp add: new_Printer_def Print_simps Indent_def Outdent_def packed_example_def)


lemma example_variables_unpacked:
  "SetEnumVariables example_helpers plain_params unpacked_example =
     [''name'' \<mapsto> ''colors'', ''capitalized_name'' \<mapsto> ''Colors'', ''number'' \<mapsto> ''1'',
      ''type'' \<mapsto> ''int'', ''default'' \<mapsto> ''RED'', ''tag'' \<mapsto> ''8'', ''tag_size'' \<mapsto> ''1'',
      ''message_name'' \<mapsto> ''M'']"
  by (simp add: SetEnumVariables_def example_helpers_def unpacked_example_def MakeTag_def
      TagSize_def VarintSize32_def WireTypeForField_def SimpleItoa_def decimal.simps
      digit_char_def)

lemma emitted_parsing_packed:
  "buffer (RepeatedEnumFieldGenerator_GenerateParsingCode
             (RepeatedEnumFieldGenerator_new example_helpers packed_example plain_params)
             new_Printer)
   = ''int length = input.readRawVarint32();\<newline>'' @
     ''int limit = input.pushLimit(length);\<newline>'' @
     ''int arrayLength = getPackedRepeatedFieldArrayLength(input, 10);\<newline>'' @
     ''colors = new int[arrayLength];\<newline>'' @
     ''for (int i = 0; i < arrayLength; i++) {\<newline>'' @
     ''  colors[i] = input.readInt32();\<newline>'' @
     ''}\<newline>'' @
     ''input.popLimit(limit);\<newline>''"
  unfolding RepeatedEnumFieldGenerator_GenerateParsingCode_def
    RepeatedEnumFieldGenerator_new_def example_variables
  by (simp add: new_Printer_def Print_simps packed_example_def)

lemma emitted_parsing_unpacked:
  "buffer (RepeatedEnumFieldGenerator_GenerateParsingCode
             (RepeatedEnumFieldGenerator_new example_helpers unpacked_example plain_params)
             new_Printer)
   = ''int arrayLength = getRepeatedFieldArrayLength(input, 8);\<newline>'' @
     ''int i = colors.length;\<newline>'' @
     ''colors = java.util.Arrays.copyOf(colors, colors.length + arrayLength);\<newline>'' @
     ''for (; i < colors.length - 1; i++) {\<newline>'' @
     ''  colors[i] = input.readInt32();\<newline>'' @
     ''  input.readTag();\<newline>'' @
     ''}\<newline>'' @
     ''// Last one without readTag.\<newline>'' @
     ''colors[i] = input.readInt32();\<newline>''"
  unfolding RepeatedEnumFieldGenerator_GenerateParsingCode_def
    RepeatedEnumFieldGenerator_new_def example_variables_unpacked
  by (simp add: new_Printer_def Print_simps unpacked_example_def)

lemma emitted_serialization_unpacked:
  "buffer (RepeatedEnumFieldGenerator_GenerateSerializationCode
             (RepeatedEnumFieldGenerator_new example_helpers unpacked_example plain_params)
             new_Printer)
   = ''if (colors.length > 0) {\<newline>'' @
     ''  for (int element : colors) {\<newline>'' @
     ''    output.writeInt32(1, element);\<newline>'' @
     ''  }\<newline>'' @
     ''}\<newline>''"
  unfolding RepeatedEnumFieldGenerator_GenerateSerializationCode_def
    RepeatedEnumFieldGenerator_new_def example_variables_unpacked
  by (simp add: new_Printer_def Print_simps Indent_def Outdent_def unpacked_example_def)

lemma emitted_size_unpacked:
  "buffer (RepeatedEnumFieldGenerator_GenerateSerializedSizeCode
             (RepeatedEnumFieldGenerator_new example_helpers unpacked_example plain_params)
             new_Printer)
   = ''if (colors.length > 0) {\<newline>'' @
     ''  int dataSize = 0;\<newline>'' @
     ''  for (int element : colors) {\<newline>'' @
     ''    dataSize += com.google.protobuf.nano.CodedOutputStreamNano\<newline>'' @
     ''      .computeInt32SizeNoTag(element);\<newline>'' @
     ''  }\<newline>'' @
     ''  size += dataSize;\<newline>'' @
     ''  size += 1 * colors.length;\<newline>'' @
     ''}\<newline>''"
  unfolding RepeatedEnumFieldGenerator_GenerateSerializedSizeCode_def
    RepeatedEnumFieldGenerator_new_def example_variables_unpacked
  by (simp add: new_Printer_def Print_simps Indent_def Outdent_def unpacked_example_def)

lemma emitted_singular:
  "buffer (EnumFieldGenerator_GenerateSerializationCode
             (EnumFieldGenerator_new example_helpers unpacked_example plain_params) new_Printer)
   = ''if (colors != RED) {\<newline>'' @
     ''  output.writeInt32(1, colors);\<newline>'' @
     ''}\<newline>''"
  "buffer (EnumFieldGenerator_GenerateSerializedSizeCode
             (EnumFieldGenerator_new example_helpers unpacked_example plain_params) new_Printer)
   = ''if (colors != RED) {\<newline>'' @
     ''  size += com.google.protobuf.nano.CodedOutputStreamNano\<newline>'' @
     ''    .computeInt32Size(1, colors);\<newline>'' @
     ''}\<newline>''"
  "buffer (EnumFieldGenerator_GenerateParsingCode
             (EnumFieldGenerator_new example_helpers unpacked_example plain_params) new_Printer)
   = ''  colors = input.readInt32();\<newline>''"
  "buffer (EnumFieldGenerator_GenerateMembers
             (EnumFieldGenerator_new example_helpers unpacked_example plain_params) new_Printer)
   = ''public int colors = RED;\<newline>''"
  unfolding EnumFieldGenerator_GenerateSerializationCode_def
    EnumFieldGenerator_GenerateSerializedSizeCode_def EnumFieldGenerator_GenerateParsingCode_def
    EnumFieldGenerator_GenerateMembers_def
    EnumFieldGenerator_new_def example_variables_unpacked
  by (simp_all add: new_Printer_def Print_simps)

lemma emitted_members_packed:
  "buffer (RepeatedEnumFieldGenerator_GenerateMembers
             (RepeatedEnumFieldGenerator_new example_helpers packed_example plain_params)
             new_Printer)
   = ''public int[] colors = EMPTY_INT_ARRAY;\<newline>'' @
     ''private int colorsMemoizedSerializedSize;\<newline>''"
  unfolding RepeatedEnumFieldGenerator_GenerateMembers_def
    RepeatedEnumFieldGenerator_new_def example_variables
  by (simp add: new_Printer_def Print_simps packed_example_def)

section \<open>The text of the fragments, for every field\<close>













section \<open>Properties of the runtime model\<close>

lemma length_varint:
  "n < 128 ^ Suc k \<Longrightarrow> k = 0 \<or> 128 ^ k \<le> n \<Longrightarrow> length (varint n) = Suc k"
proof (induction k arbitrary: n)
  case 0
  then show ?case by (simp add: varint.simps)
next
  case (Suc k)
  from Suc.prems have ge: "128 * 128 ^ k \<le> n" by simp
  have "(1::nat) \<le> 128 ^ k" by simp
  with ge have n128: "\<not> n < 128" by (metis One_nat_def le_trans mult.right_neutral mult_le_mono2 not_less)
  from Suc.prems(1) have 1: "n div 128 < 128 ^ Suc k"
    by (simp add: less_mult_imp_div_less mult.commute)
  from ge have 2: "128 ^ k \<le> n div 128"
    by (metis div_le_mono nonzero_mult_div_cancel_left zero_neq_numeral)
  from Suc.IH [OF 1] 2 have "length (varint (n div 128)) = Suc k" by simp
  with n128 show ?case by (subst varint.simps) simp
qed

lemma length_writeRawVarint32:
  "length (writeRawVarint32 v) = unat (computeRawVarint32Size v)"
proof -
  have b: "unat v < 2 ^ 32" using unsigned_less [of v] by simp
  consider "unat v < 2 ^ 7" | "2 ^ 7 \<le> unat v" "unat v < 2 ^ 14"
    | "2 ^ 14 \<le> unat v" "unat v < 2 ^ 21" | "2 ^ 21 \<le> unat v" "unat v < 2 ^ 28"
    | "2 ^ 28 \<le> unat v" by linarith
  then show ?thesis
  proof cases
    case 1
    then show ?thesis
      using length_varint [of "unat v" 0] by (simp add: writeRawVarint32_def computeRawVarint32Size_def)
  next
    case 2
    then show ?thesis
      using length_varint [of "unat v" 1] by (simp add: writeRawVarint32_def computeRawVarint32Size_def)
  next
    case 3
    then show ?thesis
      using length_varint [of "unat v" 2] by (simp add: writeRawVarint32_def computeRawVarint32Size_def)
  next
    case 4
    then show ?thesis
      using length_varint [of "unat v" 3] by (simp add: writeRawVarint32_def computeRawVarint32Size_def)
  next
    case 5
    then show ?thesis
      using length_varint [of "unat v" 4] b by (simp add: writeRawVarint32_def computeRawVarint32Size_def)
  qed
qed


















section \<open>A singular field: size and serialization agree\<close>

lemma literals_unpacked_example:
  "tag_literal unpacked_example = 8" "number_literal unpacked_example = 1"
  "tag_size_literal unpacked_example = 1"
  by (simp_all add: tag_literal_def tag_size_literal_def number_literal_def MakeTag_def
      TagSize_def VarintSize32_def WireTypeForField_def unpacked_example_def)








section \<open>A repeated field: size and serialization\<close>






lemma MakeTag_packed_example: "tag_literal packed_example = 10" "tag_size_literal packed_example = 1"
  by (simp_all add: tag_literal_def tag_size_literal_def MakeTag_def TagSize_def VarintSize32_def
      WireTypeForField_def packed_example_def)

lemma example_negative_size:
  "exec_SerializedSizeCode packed_example \<lparr>elems = [- 1], memoized = 0\<rparr> 0
     = (\<lparr>elems = [- 1], memoized = 10\<rparr>, 12)"
  by (simp add: exec_SerializedSizeCode_def MakeTag_packed_example computeInt32SizeNoTag_def
      computeRawVarint32Size_def) (simp add: packed_example_def)

lemma unat_minus_one_jint: "unat (- 1 :: jint) = 4294967295"
  by (simp add: unsigned_minus_1_eq_mask mask_eq_exp_minus_1)

lemma example_negative_bytes:
  "exec_SerializationCode packed_example \<lparr>elems = [- 1], memoized = 10\<rparr> []
     = [10, 10, 255, 255, 255, 255, 15]"
  by (simp add: exec_SerializationCode_def MakeTag_packed_example writeRawVarint32_def
      unat_minus_one_jint varint.simps) (simp add: packed_example_def)

lemma write_packed_elements_concat:
  "write_packed_elements es out = out @ concat (map writeRawVarint32 es)"
  by (induction es arbitrary: out) simp_all

lemma dataSize_loop_sum:
  "dataSize_loop es acc = acc + of_nat (sum_list (map (\<lambda>e. unat (computeInt32SizeNoTag e)) es))"
  by (induction es arbitrary: acc) (simp_all add: algebra_simps)

lemma payload_length_nonnegative:
  "\<forall>e\<in>set es. 0 \<le> sint e \<Longrightarrow>
   sum_list (map (\<lambda>e. unat (computeInt32SizeNoTag e)) es)
     = length (concat (map writeRawVarint32 es))"
  by (induction es) (simp_all add: computeInt32SizeNoTag_def length_writeRawVarint32)

lemma tag_size_packed:
  assumes "fd_packed fd" and "1 \<le> fd_number fd" and "fd_number fd < 2 ^ 29"
  shows "length (writeRawVarint32 (tag_literal fd)) = unat (tag_size_literal fd)"
proof -
  let ?n = "fd_number fd"
  have t: "MakeTag fd = ?n * 8 + 2" using assms by (simp add: MakeTag_def WireTypeForField_def)
  have "uint (tag_literal fd) = (?n * 8 + 2) mod 2 ^ 32"
    unfolding tag_literal_def t by (simp only: uint_word_of_int) simp
  also have "\<dots> = ?n * 8 + 2" using assms by simp
  finally have u: "unat (tag_literal fd) = nat (?n * 8 + 2)" by (simp add: unat_eq_nat_uint)
  have s: "TagSize ?n = VarintSize32 (?n * 8)" using assms by (simp add: TagSize_def)
  have v: "unat (word_of_int (VarintSize32 k) :: jint) = nat (VarintSize32 k)" for k
    by (simp add: VarintSize32_def)
  show ?thesis
    unfolding length_writeRawVarint32 tag_size_literal_def s v
    using assms(2,3) by (auto simp: computeRawVarint32Size_def u VarintSize32_def)
qed

lemma packed_nonnegative_consistent:
  assumes "fd_packed fd" and "1 \<le> fd_number fd" and "fd_number fd < 2 ^ 29"
    and "S \<noteq> []" and "\<forall>e\<in>set S. 0 \<le> sint e"
    and "length (concat (map writeRawVarint32 S)) + 10 < 2 ^ 31"
  shows "exec_SerializationCode fd (fst (exec_SerializedSizeCode fd \<lparr>elems = S, memoized = m\<rparr> 0)) []
           = writeRawVarint32 (tag_literal fd)
             @ writeRawVarint32 (of_nat (length (concat (map writeRawVarint32 S))))
             @ concat (map writeRawVarint32 S)
         \<and> unat (snd (exec_SerializedSizeCode fd \<lparr>elems = S, memoized = m\<rparr> 0))
           = length (exec_SerializationCode fd
                (fst (exec_SerializedSizeCode fd \<lparr>elems = S, memoized = m\<rparr> 0)) [])"
proof -
  let ?payload = "concat (map writeRawVarint32 S)"
  let ?d = "of_nat (length ?payload) :: jint"
  have d: "dataSize_loop S 0 = ?d"
    by (simp add: dataSize_loop_sum payload_length_nonnegative [OF assms(5)])
  have ud: "unat ?d = length ?payload"
    using assms(6) by (simp add: unat_of_nat)
  have p5: "unat (computeRawVarint32Size ?d) \<le> 5" by (simp add: computeRawVarint32Size_def)
  have t5: "unat (tag_size_literal fd) = length (writeRawVarint32 (tag_literal fd))"
    by (rule tag_size_packed [OF assms(1-3), symmetric])
  have tl: "length (writeRawVarint32 (tag_literal fd)) \<le> 5"
    by (simp add: length_writeRawVarint32 computeRawVarint32Size_def)
  have size: "exec_SerializedSizeCode fd \<lparr>elems = S, memoized = m\<rparr> 0
      = (\<lparr>elems = S, memoized = ?d\<rparr>, ?d + tag_size_literal fd + computeRawVarint32Size ?d)"
    using assms(1,4) by (simp add: exec_SerializedSizeCode_def d Let_def)
  have bytes: "exec_SerializationCode fd \<lparr>elems = S, memoized = ?d\<rparr> []
      = writeRawVarint32 (tag_literal fd) @ writeRawVarint32 ?d @ ?payload"
    using assms(1,4) by (simp add: exec_SerializationCode_def write_packed_elements_concat)
  have ts: "unat (tag_size_literal fd) \<le> 5" using t5 tl by simp
  have 1: "unat (?d + tag_size_literal fd) = unat ?d + unat (tag_size_literal fd)"
    using assms(6) ts ud by (intro unat_add_lem [THEN iffD1]) simp
  have 2: "unat (?d + tag_size_literal fd + computeRawVarint32Size ?d)
          = unat (?d + tag_size_literal fd) + unat (computeRawVarint32Size ?d)"
    using assms(6) ts ud p5 1 by (intro unat_add_lem [THEN iffD1]) simp
  from 1 2 have "unat (?d + tag_size_literal fd + computeRawVarint32Size ?d)
          = unat ?d + unat (tag_size_literal fd) + unat (computeRawVarint32Size ?d)"
    by simp
  then show ?thesis
    unfolding size bytes fst_conv snd_conv
    by (simp add: ud t5 length_writeRawVarint32)
qed

text \<open>
  Claim C1. For the packed field with the one element \<open>- 1\<close>, the size fragment counts
  ten bytes of payload (\<^verbatim>\<open>computeInt32SizeNoTag\<close> of a negative value) and twelve bytes
  in all, and stores 10 in the cache; the serialization fragment then writes the tag, the
  length prefix 10 and five bytes of payload (\<^verbatim>\<open>writeRawVarint32\<close> of the element):
  seven bytes, not twelve, with a length prefix that exceeds the payload written. Lemma
  \<open>packed_nonnegative_consistent\<close> above is the agreement of the two fragments for
  sequences without a negative element.
\<close>

theorem packed_negative_size_mismatch:
  "exec_SerializedSizeCode packed_example \<lparr>elems = [- 1], memoized = 0\<rparr> 0
     = (\<lparr>elems = [- 1], memoized = 10\<rparr>, 12)
   \<and> exec_SerializationCode packed_example
         (fst (exec_SerializedSizeCode packed_example \<lparr>elems = [- 1], memoized = 0\<rparr> 0)) []
       = [10, 10, 255, 255, 255, 255, 15]
   \<and> length (exec_SerializationCode packed_example
         (fst (exec_SerializedSizeCode packed_example \<lparr>elems = [- 1], memoized = 0\<rparr> 0)) [])
       \<noteq> unat (snd (exec_SerializedSizeCode packed_example \<lparr>elems = [- 1], memoized = 0\<rparr> 0))"
  by (simp add: example_negative_size example_negative_bytes)


section \<open>Parsing a packed field\<close>





lemma readVarint_numeral:
  "readVarint (numeral k) inp =
     (case readRawByte inp of
        Inl e \<Rightarrow> Inl e
      | Inr (b, inp1) \<Rightarrow>
          if unat b < 128 then Inr (unat b, inp1)
          else (case readVarint (pred_numeral k) inp1 of
                  Inl e \<Rightarrow> Inl e
                | Inr (v, inp2) \<Rightarrow> Inr (unat b - 128 + 128 * v, inp2)))"
  by (simp add: numeral_eq_Suc)

lemma replicate_numeral_unfold: "replicate (numeral k) x = x # replicate (pred_numeral k) x"
  by (simp add: numeral_eq_Suc)

lemmas read_simps = replicate_numeral_unfold readRawVarint32_def readInt32_def readVarint_numeral readRawByte_def
  readTag_def isAtEnd_def






section \<open>The cache cell of a packed field\<close>












section \<open>Round trip of a field that is not packed\<close>











lemma example_unpacked_parse:
  "exec_ParsingCode_unpacked getRepeatedFieldArrayLength unpacked_example new_RepeatedField
     \<lparr>rest = [7, 8, 253, 255, 255, 255, 255, 255, 255, 255, 255, 1, 8, 0], pos = 1,
      limit = 2 ^ 31 - 1\<rparr>
   = (\<lparr>elems = [7, - 3, 0], memoized = 0\<rparr>, Inr \<lparr>rest = [], pos = 15, limit = 2 ^ 31 - 1\<rparr>)"
  by (simp add: exec_ParsingCode_unpacked_def getRepeatedFieldArrayLength_def
      literals_unpacked_example count_run.simps unpacked_loop.simps read_simps
      new_RepeatedField_def copyOf_def)



end
